theory Spec2Isabelle
  imports Complex_Main
begin

section \<open>Data model\<close>

text \<open>
  The views and filters of \<^verbatim>\<open>fgapp\<close> work on the tables of \<^verbatim>\<open>fgapp.models\<close> and
  \<^verbatim>\<open>users.models\<close>. A table is the list of its rows; every row carries its primary key.
  Strings are byte strings (UTF-8), so a Cyrillic letter of a message is two characters.
  The one exception is the name of an ingredient and the value it is searched by: the
  search depends on which characters of a Python \<^verbatim>\<open>str\<close> are whitespace or NUL, so
  these are lists of code points.
\<close>

type_synonym pk = nat

type_synonym str = "nat list"

text \<open>The code points of an ASCII literal.\<close>

definition codepoints :: "string \<Rightarrow> str" where
  "codepoints s = map of_char s"

text \<open>Modelled from the spec: the model classes (\<^verbatim>\<open>fgapp/models.py\<close>, \<^verbatim>\<open>users/models.py\<close>)
  are not part of the sources; the fields are the ones the views, filters and admin classes
  name.\<close>

record user =
  user_pk :: pk
  username :: string

record recipe =
  recipe_pk :: pk
  recipe_author :: pk
  recipe_name :: string
  recipe_text :: string

record tag =
  tag_pk :: pk
  tag_name :: string
  tag_slug :: string

record ingredient =
  ingredient_pk :: pk
  ingredient_name :: str
  measurement_unit :: string

record recipe_tags =
  rt_pk :: pk
  rt_recipe :: pk
  rt_tag :: pk

record favorite_recipe =
  fav_pk :: pk
  fav_user :: pk
  fav_recipe :: pk

record shopping_cart =
  cart_pk :: pk
  cart_user :: pk
  cart_recipe :: pk

record subscribe =
  sub_pk :: pk
  sub_user :: pk
  sub_subscribing :: pk

record db =
  User_objects :: "user list"
  Recipe_objects :: "recipe list"
  Tag_objects :: "tag list"
  Ingredient_objects :: "ingredient list"
  RecipeTags_objects :: "recipe_tags list"
  FavoriteRecipe_objects :: "favorite_recipe list"
  ShoppingCart_objects :: "shopping_cart list"
  Subscribe_objects :: "subscribe list"

text \<open>\<^verbatim>\<open>request.user\<close> is a \<^verbatim>\<open>User\<close> row or the framework's \<^verbatim>\<open>AnonymousUser\<close>.\<close>

datatype request_user = AnonymousUser | User user

fun is_authenticated :: "request_user \<Rightarrow> bool" where
  "is_authenticated AnonymousUser = False"
| "is_authenticated (User u) = True"

text \<open>Modelled from the spec: the primary key of a table is unique, and a membership table
  holds a pair (user, target) at most once ("uniqueness per pair implied by toggle
  semantics"); the constraints themselves are declared in the model classes, which are not
  part of the sources.\<close>

definition wf_db :: "db \<Rightarrow> bool" where
  "wf_db d \<longleftrightarrow>
     distinct (map user_pk (User_objects d)) \<and>
     distinct (map recipe_pk (Recipe_objects d)) \<and>
     distinct (map fav_pk (FavoriteRecipe_objects d)) \<and>
     distinct (map cart_pk (ShoppingCart_objects d)) \<and>
     distinct (map sub_pk (Subscribe_objects d)) \<and>
     distinct (map (\<lambda>f. (fav_user f, fav_recipe f)) (FavoriteRecipe_objects d)) \<and>
     distinct (map (\<lambda>c. (cart_user c, cart_recipe c)) (ShoppingCart_objects d)) \<and>
     distinct (map (\<lambda>s. (sub_user s, sub_subscribing s)) (Subscribe_objects d))"

section \<open>Exceptions, responses and row lookup\<close>

datatype exn =
  DoesNotExist | MultipleObjectsReturned | Http404 | TypeError | AttributeError
  | ValueError | ValidationError

record response =
  status :: nat
  data :: "(string \<times> string) list option"

abbreviation HTTP_204_NO_CONTENT :: nat where "HTTP_204_NO_CONTENT \<equiv> 204"
abbreviation HTTP_400_BAD_REQUEST :: nat where "HTTP_400_BAD_REQUEST \<equiv> 400"

text \<open>What the caller sees of a view's outcome: the framework's exception handler turns
  \<^verbatim>\<open>Http404\<close> into a 404 and a validation error into a 400; any other exception is a
  server error.\<close>

fun http_status :: "exn + response \<Rightarrow> nat" where
  "http_status (Inr r) = status r"
| "http_status (Inl Http404) = 404"
| "http_status (Inl ValidationError) = 400"
| "http_status (Inl e) = 500"

text \<open>\<^verbatim>\<open>Model.objects.get(**lookup)\<close>: the single row that matches, an exception when there
  is none or more than one.\<close>

definition objects_get :: "('a \<Rightarrow> bool) \<Rightarrow> 'a list \<Rightarrow> exn + 'a" where
  "objects_get p objects =
     (case filter p objects of
        [] \<Rightarrow> Inl DoesNotExist
      | [x] \<Rightarrow> Inr x
      | _ \<Rightarrow> Inl MultipleObjectsReturned)"

text \<open>\<^verbatim>\<open>get_object_or_404\<close> replaces \<^verbatim>\<open>DoesNotExist\<close> by \<^verbatim>\<open>Http404\<close> and lets every
  other exception through.\<close>

definition get_object_or_404 :: "('a \<Rightarrow> bool) \<Rightarrow> 'a list \<Rightarrow> exn + 'a" where
  "get_object_or_404 p objects =
     (case objects_get p objects of
        Inl e \<Rightarrow> if e = DoesNotExist then Inl Http404 else Inl e
      | Inr x \<Rightarrow> Inr x)"

section \<open>Membership toggles: delete\<close>

text \<open>The byte strings around the target's name in the three messages of \<^verbatim>\<open>views.py\<close>.\<close>

definition msg_recipe :: string where
  "msg_recipe = [CHR 0xD0, CHR 0xA0, CHR 0xD0, CHR 0xB5, CHR 0xD1, CHR 0x86, CHR 0xD0,
     CHR 0xB5, CHR 0xD0, CHR 0xBF, CHR 0xD1, CHR 0x82, CHR '' '', CHR ''('']"

definition msg_absent_cart :: string where
  "msg_absent_cart = [CHR '')'', CHR '' '', CHR 0xD1, CHR 0x83, CHR 0xD0, CHR 0xB6, CHR 0xD0,
     CHR 0xB5, CHR '' '', CHR 0xD0, CHR 0xBE, CHR 0xD1, CHR 0x82, CHR 0xD1, CHR 0x81, CHR 0xD1,
     CHR 0x83, CHR 0xD1, CHR 0x82, CHR 0xD1, CHR 0x81, CHR 0xD1, CHR 0x82, CHR 0xD0, CHR 0xB2,
     CHR 0xD1, CHR 0x83, CHR 0xD0, CHR 0xB5, CHR 0xD1, CHR 0x82, CHR '' '', CHR 0xD0, CHR 0xB2,
     CHR '' '', CHR 0xD1, CHR 0x81, CHR 0xD0, CHR 0xBF, CHR 0xD0, CHR 0xB8, CHR 0xD1, CHR 0x81,
     CHR 0xD0, CHR 0xBA, CHR 0xD0, CHR 0xB5, CHR '' '', CHR 0xD0, CHR 0xBF, CHR 0xD0, CHR 0xBE,
     CHR 0xD0, CHR 0xBA, CHR 0xD1, CHR 0x83, CHR 0xD0, CHR 0xBF, CHR 0xD0, CHR 0xBE, CHR 0xD0,
     CHR 0xBA, CHR ''.'']"

definition msg_absent_favorite :: string where
  "msg_absent_favorite = [CHR '')'', CHR '' '', CHR 0xD1, CHR 0x83, CHR 0xD0, CHR 0xB6,
     CHR 0xD0, CHR 0xB5, CHR '' '', CHR 0xD0, CHR 0xBE, CHR 0xD1, CHR 0x82, CHR 0xD1, CHR 0x81,
     CHR 0xD1, CHR 0x83, CHR 0xD1, CHR 0x82, CHR 0xD1, CHR 0x81, CHR 0xD1, CHR 0x82, CHR 0xD0,
     CHR 0xB2, CHR 0xD1, CHR 0x83, CHR 0xD0, CHR 0xB5, CHR 0xD1, CHR 0x82, CHR '' '', CHR 0xD0,
     CHR 0xB2, CHR '' '', CHR 0xD0, CHR 0xB8, CHR 0xD0, CHR 0xB7, CHR 0xD0, CHR 0xB1, CHR 0xD1,
     CHR 0x80, CHR 0xD0, CHR 0xB0, CHR 0xD0, CHR 0xBD, CHR 0xD0, CHR 0xBD, CHR 0xD0, CHR 0xBE,
     CHR 0xD0, CHR 0xBC, CHR ''.'']"

definition msg_author :: string where
  "msg_author = [CHR 0xD0, CHR 0x90, CHR 0xD0, CHR 0xB2, CHR 0xD1, CHR 0x82, CHR 0xD0,
     CHR 0xBE, CHR 0xD1, CHR 0x80, CHR '' '']"

definition msg_absent_subscribe :: string where
  "msg_absent_subscribe = [CHR '' '', CHR 0xD0, CHR 0xBE, CHR 0xD1, CHR 0x82, CHR 0xD1,
     CHR 0x81, CHR 0xD1, CHR 0x83, CHR 0xD1, CHR 0x82, CHR 0xD1, CHR 0x81, CHR 0xD1, CHR 0x82,
     CHR 0xD0, CHR 0xB2, CHR 0xD1, CHR 0x83, CHR 0xD1, CHR 0x82, CHR '' '', CHR 0xD0, CHR 0xB2,
     CHR '' '', CHR 0xD0, CHR 0x92, CHR 0xD0, CHR 0xB0, CHR 0xD1, CHR 0x88, CHR 0xD0, CHR 0xB8,
     CHR 0xD1, CHR 0x85, CHR '' '', CHR 0xD0, CHR 0xBF, CHR 0xD0, CHR 0xBE, CHR 0xD0, CHR 0xB4,
     CHR 0xD0, CHR 0xBF, CHR 0xD0, CHR 0xB8, CHR 0xD1, CHR 0x81, CHR 0xD0, CHR 0xBA, CHR 0xD0,
     CHR 0xB0, CHR 0xD1, CHR 0x85, CHR ''.'']"

text \<open>\<^verbatim>\<open>ShoppingCartViewSet.delete\<close>. A lookup by \<^verbatim>\<open>user=AnonymousUser\<close> is a
  \<^verbatim>\<open>TypeError\<close> of the query builder. \<^verbatim>\<open>cart_item.delete()\<close> removes the rows with the
  primary key of \<^verbatim>\<open>cart_item\<close>.\<close>

definition ShoppingCartViewSet_delete ::
  "request_user \<Rightarrow> pk \<Rightarrow> db \<Rightarrow> (exn + response) \<times> db" where
  "ShoppingCartViewSet_delete request_user recipe_id d =
     (case get_object_or_404 (\<lambda>r. recipe_pk r = recipe_id) (Recipe_objects d) of
        Inl e \<Rightarrow> (Inl e, d)
      | Inr recipe \<Rightarrow>
          (case request_user of
             AnonymousUser \<Rightarrow> (Inl TypeError, d)
           | User u \<Rightarrow>
               (case get_object_or_404
                       (\<lambda>c. cart_user c = user_pk u \<and> cart_recipe c = recipe_pk recipe)
                       (ShoppingCart_objects d) of
                  Inl e \<Rightarrow>
                    if e = Http404
                    then (Inr \<lparr>status = HTTP_400_BAD_REQUEST,
                               data = Some [(''errors'',
                                 msg_recipe @ recipe_name recipe @ msg_absent_cart)]\<rparr>, d)
                    else (Inl e, d)
                | Inr cart_item \<Rightarrow>
                    (Inr \<lparr>status = HTTP_204_NO_CONTENT, data = None\<rparr>,
                     d\<lparr>ShoppingCart_objects :=
                         filter (\<lambda>c. cart_pk c \<noteq> cart_pk cart_item)
                           (ShoppingCart_objects d)\<rparr>))))"

text \<open>\<^verbatim>\<open>FavoriteRecipeViewSet.delete\<close>.\<close>

definition FavoriteRecipeViewSet_delete ::
  "request_user \<Rightarrow> pk \<Rightarrow> db \<Rightarrow> (exn + response) \<times> db" where
  "FavoriteRecipeViewSet_delete request_user recipe_id d =
     (case get_object_or_404 (\<lambda>r. recipe_pk r = recipe_id) (Recipe_objects d) of
        Inl e \<Rightarrow> (Inl e, d)
      | Inr recipe \<Rightarrow>
          (case request_user of
             AnonymousUser \<Rightarrow> (Inl TypeError, d)
           | User u \<Rightarrow>
               (case get_object_or_404
                       (\<lambda>f. fav_user f = user_pk u \<and> fav_recipe f = recipe_pk recipe)
                       (FavoriteRecipe_objects d) of
                  Inl e \<Rightarrow>
                    if e = Http404
                    then (Inr \<lparr>status = HTTP_400_BAD_REQUEST,
                               data = Some [(''errors'',
                                 msg_recipe @ recipe_name recipe @ msg_absent_favorite)]\<rparr>, d)
                    else (Inl e, d)
                | Inr favorite \<Rightarrow>
                    (Inr \<lparr>status = HTTP_204_NO_CONTENT, data = None\<rparr>,
                     d\<lparr>FavoriteRecipe_objects :=
                         filter (\<lambda>f. fav_pk f \<noteq> fav_pk favorite)
                           (FavoriteRecipe_objects d)\<rparr>))))"

text \<open>\<^verbatim>\<open>SubscribeViewSet.delete\<close>. The message formats the target with the \<^verbatim>\<open>__str__\<close>
  of the user model, which is declared outside the sources: it is the parameter
  \<open>user_str\<close>.\<close>

definition SubscribeViewSet_delete ::
  "(user \<Rightarrow> string) \<Rightarrow> request_user \<Rightarrow> pk \<Rightarrow> db \<Rightarrow> (exn + response) \<times> db" where
  "SubscribeViewSet_delete user_str request_user user_id d =
     (case get_object_or_404 (\<lambda>x. user_pk x = user_id) (User_objects d) of
        Inl e \<Rightarrow> (Inl e, d)
      | Inr author_for_unsubs \<Rightarrow>
          (case request_user of
             AnonymousUser \<Rightarrow> (Inl TypeError, d)
           | User u \<Rightarrow>
               (case get_object_or_404
                       (\<lambda>s. sub_user s = user_pk u
                            \<and> sub_subscribing s = user_pk author_for_unsubs)
                       (Subscribe_objects d) of
                  Inl e \<Rightarrow>
                    if e = Http404
                    then (Inr \<lparr>status = HTTP_400_BAD_REQUEST,
                               data = Some [(''errors'',
                                 msg_author @ user_str author_for_unsubs
                                   @ msg_absent_subscribe)]\<rparr>, d)
                    else (Inl e, d)
                | Inr subscribe \<Rightarrow>
                    (Inr \<lparr>status = HTTP_204_NO_CONTENT, data = None\<rparr>,
                     d\<lparr>Subscribe_objects :=
                         filter (\<lambda>s. sub_pk s \<noteq> sub_pk subscribe)
                           (Subscribe_objects d)\<rparr>))))"

section \<open>Recipe view set\<close>

text \<open>The primary key of \<^verbatim>\<open>request.user\<close>; the anonymous user has none.\<close>

fun request_user_pk :: "request_user \<Rightarrow> pk option" where
  "request_user_pk AnonymousUser = None"
| "request_user_pk (User u) = Some (user_pk u)"

text \<open>A recipe row with the two annotations of \<^verbatim>\<open>queryset.annotate\<close>.\<close>

record annotated_recipe =
  the_recipe :: recipe
  is_favorited :: bool
  is_in_shopping_cart :: bool

text \<open>The value of the local variable \<^verbatim>\<open>queryset\<close> of \<^verbatim>\<open>RecipeViewSet.get_queryset\<close>
  after the \<^verbatim>\<open>if\<close> statement: \<^verbatim>\<open>Exists(...)\<close> is the non-emptiness of the filtered
  membership table, the outer reference is the recipe of the row.\<close>

definition annotated_queryset :: "request_user \<Rightarrow> db \<Rightarrow> annotated_recipe list" where
  "annotated_queryset request_user d =
     (if is_authenticated request_user
      then map (\<lambda>r. \<lparr>the_recipe = r,
                  is_favorited =
                    (filter (\<lambda>f. Some (fav_user f) = request_user_pk request_user
                                \<and> fav_recipe f = recipe_pk r)
                       (FavoriteRecipe_objects d) \<noteq> []),
                  is_in_shopping_cart =
                    (filter (\<lambda>c. Some (cart_user c) = request_user_pk request_user
                                \<and> cart_recipe c = recipe_pk r)
                       (ShoppingCart_objects d) \<noteq> [])\<rparr>)
             (Recipe_objects d)
      else map (\<lambda>r. \<lparr>the_recipe = r, is_favorited = False, is_in_shopping_cart = False\<rparr>)
             (Recipe_objects d))"

text \<open>\<^verbatim>\<open>RecipeViewSet.get_queryset\<close> ends with a bare \<^verbatim>\<open>return\<close>: the annotated
  queryset is computed and dropped, the method's value is \<^verbatim>\<open>None\<close>.\<close>

definition RecipeViewSet_get_queryset ::
  "request_user \<Rightarrow> db \<Rightarrow> annotated_recipe list option" where
  "RecipeViewSet_get_queryset request_user d =
     (let queryset = annotated_queryset request_user d in None)"

subsection \<open>Saving a recipe\<close>

datatype val = VUser request_user | VStr string

record serializer =
  validated_data :: "string \<rightharpoonup> val"
  ser_instance :: "recipe option"

definition next_pk :: "recipe list \<Rightarrow> pk" where
  "next_pk rs = Suc (fold max (map recipe_pk rs) 0)"

definition str_field :: "(string \<rightharpoonup> val) \<Rightarrow> string \<Rightarrow> string \<Rightarrow> string" where
  "str_field vd k dflt = (case vd k of Some (VStr s) \<Rightarrow> s | _ \<Rightarrow> dflt)"

text \<open>Modelled from the spec: \<^verbatim>\<open>RecipePostSerializer.create\<close> (\<^verbatim>\<open>fgapp/serializers.py\<close> is
  not part of the sources) stores a new recipe whose fields are those of the data it is
  given, under a fresh primary key; an author that is not a user row is refused.\<close>

definition RecipePostSerializer_create :: "(string \<rightharpoonup> val) \<Rightarrow> db \<Rightarrow> exn + recipe \<times> db" where
  "RecipePostSerializer_create vd d =
     (case vd ''author'' of
        Some (VUser (User a)) \<Rightarrow>
          (let r = \<lparr>recipe_pk = next_pk (Recipe_objects d), recipe_author = user_pk a,
                    recipe_name = str_field vd ''name'' [],
                    recipe_text = str_field vd ''text'' []\<rparr>
           in Inr (r, d\<lparr>Recipe_objects := Recipe_objects d @ [r]\<rparr>))
      | _ \<Rightarrow> Inl ValueError)"

text \<open>Modelled from the spec: \<^verbatim>\<open>RecipePostSerializer.update\<close> (same missing file) sets the
  fields present in the data on the instance and stores it in place of the row with its
  primary key.\<close>

definition RecipePostSerializer_update ::
  "recipe \<Rightarrow> (string \<rightharpoonup> val) \<Rightarrow> db \<Rightarrow> exn + recipe \<times> db" where
  "RecipePostSerializer_update inst vd d =
     (case (case vd ''author'' of
              None \<Rightarrow> Inr (recipe_author inst)
            | Some (VUser (User a)) \<Rightarrow> Inr (user_pk a)
            | Some _ \<Rightarrow> Inl ValueError) of
        Inl e \<Rightarrow> Inl e
      | Inr a \<Rightarrow>
          (let r = inst\<lparr>recipe_author := a,
                        recipe_name := str_field vd ''name'' (recipe_name inst),
                        recipe_text := str_field vd ''text'' (recipe_text inst)\<rparr>
           in Inr (r, d\<lparr>Recipe_objects :=
                          map (\<lambda>x. if recipe_pk x = recipe_pk r then r else x)
                            (Recipe_objects d)\<rparr>)))"

text \<open>\<^verbatim>\<open>serializer.save(**kwargs)\<close> of the REST framework: the keyword arguments are merged
  over the validated data (\<^verbatim>\<open>{**self.validated_data, **kwargs}\<close>), then the serializer's
  \<^verbatim>\<open>update\<close> runs when it has an instance and its \<^verbatim>\<open>create\<close> otherwise.\<close>

definition serializer_save ::
  "serializer \<Rightarrow> (string \<rightharpoonup> val) \<Rightarrow> db \<Rightarrow> exn + recipe \<times> db" where
  "serializer_save s kwargs d =
     (let vd = validated_data s ++ kwargs
      in case ser_instance s of
           Some i \<Rightarrow> RecipePostSerializer_update i vd d
         | None \<Rightarrow> RecipePostSerializer_create vd d)"

definition RecipeViewSet_perform_create ::
  "request_user \<Rightarrow> serializer \<Rightarrow> db \<Rightarrow> exn + recipe \<times> db" where
  "RecipeViewSet_perform_create request_user s d =
     serializer_save s [''author'' \<mapsto> VUser request_user] d"

definition RecipeViewSet_perform_update ::
  "request_user \<Rightarrow> serializer \<Rightarrow> db \<Rightarrow> exn + recipe \<times> db" where
  "RecipeViewSet_perform_update request_user s d =
     serializer_save s [''author'' \<mapsto> VUser request_user] d"

section \<open>Filters\<close>

subsection \<open>Recipe filter set\<close>

text \<open>Modelled from the spec: \<^verbatim>\<open>favorites\<close> and \<^verbatim>\<open>shopping_list\<close> are the reverse names
  of the recipe references of \<^verbatim>\<open>FavoriteRecipe\<close> and \<^verbatim>\<open>ShoppingCart\<close> (declared in the
  missing model classes). A filter across such a relation is a join: a recipe comes once
  for every membership row that matches. The value of a \<^verbatim>\<open>NumberFilter\<close> is a decimal
  number, true when it is not zero.\<close>

definition RecipeFilterSet_filter_is_favorited ::
  "request_user \<Rightarrow> db \<Rightarrow> recipe list \<Rightarrow> rat \<Rightarrow> recipe list" where
  "RecipeFilterSet_filter_is_favorited request_user d queryset v =
     (if v \<noteq> 0 \<and> is_authenticated request_user
      then [r. r \<leftarrow> queryset, f \<leftarrow> FavoriteRecipe_objects d,
               fav_recipe f = recipe_pk r \<and> Some (fav_user f) = request_user_pk request_user]
      else queryset)"

text \<open>\<^verbatim>\<open>filter_is_in_shopping_cart\<close> ends with a bare \<^verbatim>\<open>return\<close>: outside the
  \<^verbatim>\<open>if\<close> its value is \<^verbatim>\<open>None\<close>.\<close>

definition RecipeFilterSet_filter_is_in_shopping_cart ::
  "request_user \<Rightarrow> db \<Rightarrow> recipe list \<Rightarrow> rat \<Rightarrow> recipe list option" where
  "RecipeFilterSet_filter_is_in_shopping_cart request_user d queryset v =
     (if v \<noteq> 0 \<and> is_authenticated request_user
      then Some [r. r \<leftarrow> queryset, c \<leftarrow> ShoppingCart_objects d,
                    cart_recipe c = recipe_pk r
                      \<and> Some (cart_user c) = request_user_pk request_user]
      else None)"

text \<open>The caller's favorites and shopping cart, in the spec's words.\<close>

definition in_favorites :: "db \<Rightarrow> user \<Rightarrow> recipe \<Rightarrow> bool" where
  "in_favorites d u r \<longleftrightarrow>
     (\<exists>f\<in>set (FavoriteRecipe_objects d). fav_user f = user_pk u \<and> fav_recipe f = recipe_pk r)"

definition in_shopping_cart :: "db \<Rightarrow> user \<Rightarrow> recipe \<Rightarrow> bool" where
  "in_shopping_cart d u r \<longleftrightarrow>
     (\<exists>c\<in>set (ShoppingCart_objects d). cart_user c = user_pk u \<and> cart_recipe c = recipe_pk r)"

text \<open>The \<^verbatim>\<open>tags\<close> filter, a \<^verbatim>\<open>ModelMultipleChoiceFilter\<close> on \<^verbatim>\<open>tags__slug\<close> with the
  choices \<^verbatim>\<open>Tag.objects.all()\<close> keyed by \<^verbatim>\<open>slug\<close>. The filter library cleans the
  submitted values first: a value that is the slug of no tag is an invalid choice, and the
  request fails with a validation error. With no value the queryset is left as it is.
  Otherwise the lookups \<^verbatim>\<open>tags__slug=v\<close> are joined by OR over the recipe-tag and tag
  tables, and the result is made distinct.\<close>

definition RecipeFilterSet_tags :: "db \<Rightarrow> recipe list \<Rightarrow> string list \<Rightarrow> exn + recipe list" where
  "RecipeFilterSet_tags d queryset vs =
     (if vs = [] then Inr queryset
      else if \<exists>v\<in>set vs. v \<notin> set (map tag_slug (Tag_objects d)) then Inl ValidationError
      else Inr (remdups
             [r. r \<leftarrow> queryset, rt \<leftarrow> RecipeTags_objects d, rt_recipe rt = recipe_pk r,
                 t \<leftarrow> Tag_objects d, tag_pk t = rt_tag rt, tag_slug t \<in> set vs]))"

text \<open>"Tagged with the slug", in the spec's words.\<close>

definition tagged_with :: "db \<Rightarrow> recipe \<Rightarrow> string \<Rightarrow> bool" where
  "tagged_with d r slug \<longleftrightarrow>
     (\<exists>rt\<in>set (RecipeTags_objects d). rt_recipe rt = recipe_pk r \<and>
        (\<exists>t\<in>set (Tag_objects d). tag_pk t = rt_tag rt \<and> tag_slug t = slug))"

subsection \<open>Ingredient search filter\<close>

text \<open>The \<^verbatim>\<open>name\<close> filter is a \<^verbatim>\<open>CharFilter\<close> with the lookup \<^verbatim>\<open>istartswith\<close>. Its
  form field is the framework's \<^verbatim>\<open>CharField\<close>, which cleans the submitted value before
  the lookup runs: the value is stripped of leading and trailing whitespace with
  \<^verbatim>\<open>str.strip\<close> (\<^verbatim>\<open>strip=True\<close> is the default); a value that is empty after that leaves
  the queryset as it is; a value that is not empty and holds a NUL character is refused
  with a validation error (the field's \<^verbatim>\<open>ProhibitNullCharactersValidator\<close>). The database
  compares the upper-cased name with the upper-cased value; its upper-casing of a character
  is the parameter \<open>upper\<close>.\<close>

text \<open>The code points for which \<^verbatim>\<open>str.isspace\<close> holds.\<close>

definition isspace :: "nat \<Rightarrow> bool" where
  "isspace c \<longleftrightarrow>
     c \<in> set [0x09, 0x0A, 0x0B, 0x0C, 0x0D, 0x1C, 0x1D, 0x1E, 0x1F, 0x20, 0x85, 0xA0,
                0x1680, 0x2000, 0x2001, 0x2002, 0x2003, 0x2004, 0x2005, 0x2006, 0x2007,
                0x2008, 0x2009, 0x200A, 0x2028, 0x2029, 0x202F, 0x205F, 0x3000]"

definition strip :: "str \<Rightarrow> str" where
  "strip s = rev (dropWhile isspace (rev (dropWhile isspace s)))"

fun startswith :: "'a list \<Rightarrow> 'a list \<Rightarrow> bool" where
  "startswith s [] = True"
| "startswith [] (p # ps) = False"
| "startswith (c # cs) (p # ps) = (c = p \<and> startswith cs ps)"

definition istartswith :: "('a \<Rightarrow> 'a) \<Rightarrow> 'a list \<Rightarrow> 'a list \<Rightarrow> bool" where
  "istartswith upper s v = startswith (map upper s) (map upper v)"

definition IngredientSearchFilter_name ::
  "(nat \<Rightarrow> nat) \<Rightarrow> ingredient list \<Rightarrow> str \<Rightarrow> exn + ingredient list" where
  "IngredientSearchFilter_name upper queryset raw =
     (let v = strip raw
      in if v = [] then Inr queryset
         else if 0 \<in> set v then Inl ValidationError
         else Inr (filter (\<lambda>i. istartswith upper (ingredient_name i) v) queryset))"

text \<open>"The name starts with \<open>s\<close>, ignoring case", in the spec's words: the first
  \<open>length s\<close> characters of the name are those of \<open>s\<close> up to case.\<close>

definition starts_with_ignoring_case :: "('a \<Rightarrow> 'a) \<Rightarrow> 'a list \<Rightarrow> 'a list \<Rightarrow> bool" where
  "starts_with_ignoring_case upper s name \<longleftrightarrow>
     length s \<le> length name \<and> map upper (take (length s) name) = map upper s"

text \<open>Upper-casing of the ASCII letters, for the examples.\<close>

definition ascii_upper :: "nat \<Rightarrow> nat" where
  "ascii_upper c = (if 0x61 \<le> c \<and> c \<le> 0x7A then c - 0x20 else c)"

section \<open>Subscriptions list\<close>

text \<open>\<^verbatim>\<open>SubscriptionsViewSet.get_queryset\<close>. Modelled from the spec: \<^verbatim>\<open>subscriber\<close> is the
  reverse name of the \<^verbatim>\<open>user\<close> reference of \<^verbatim>\<open>Subscribe\<close> (declared in the missing model
  classes), so \<^verbatim>\<open>request.user.subscriber.all()\<close> are the caller's subscription rows. The
  anonymous user has no such attribute.\<close>

definition SubscriptionsViewSet_get_queryset :: "request_user \<Rightarrow> db \<Rightarrow> exn + user list" where
  "SubscriptionsViewSet_get_queryset request_user d =
     (case request_user of
        AnonymousUser \<Rightarrow> Inl AttributeError
      | User u \<Rightarrow>
          (let subs_query = filter (\<lambda>s. sub_user s = user_pk u) (Subscribe_objects d);
               subs_id_list = map sub_subscribing subs_query
           in Inr (filter (\<lambda>x. user_pk x \<in> set subs_id_list) (User_objects d))))"

text \<open>"\<open>a\<close> has subscribed to \<open>x\<close>", in the spec's words.\<close>

definition subscribed_to :: "db \<Rightarrow> user \<Rightarrow> user \<Rightarrow> bool" where
  "subscribed_to d a x \<longleftrightarrow>
     (\<exists>s\<in>set (Subscribe_objects d). sub_user s = user_pk a \<and> sub_subscribing s = user_pk x)"

section \<open>An example database\<close>

definition alice :: user where "alice = \<lparr>user_pk = 1, username = ''alice''\<rparr>"
definition bob :: user where "bob = \<lparr>user_pk = 2, username = ''bob''\<rparr>"

definition pancakes :: recipe where
  "pancakes = \<lparr>recipe_pk = 1, recipe_author = 1, recipe_name = ''Pancakes'',
                recipe_text = ''Mix and fry.''\<rparr>"

definition soup :: recipe where
  "soup = \<lparr>recipe_pk = 2, recipe_author = 2, recipe_name = ''Soup'',
            recipe_text = ''Boil.''\<rparr>"

definition milk :: ingredient where
  "milk = \<lparr>ingredient_pk = 1, ingredient_name = codepoints ''Milk'', measurement_unit = ''ml''\<rparr>"

definition milkshake :: ingredient where
  "milkshake = \<lparr>ingredient_pk = 2, ingredient_name = codepoints ''MILKSHAKE'',
                 measurement_unit = ''ml''\<rparr>"

definition almilk :: ingredient where
  "almilk = \<lparr>ingredient_pk = 3, ingredient_name = codepoints ''Almilk'', measurement_unit = ''ml''\<rparr>"

definition db0 :: db where
  "db0 = \<lparr>User_objects = [alice, bob],
          Recipe_objects = [pancakes, soup],
          Tag_objects = [\<lparr>tag_pk = 1, tag_name = ''Breakfast'', tag_slug = ''breakfast''\<rparr>,
                         \<lparr>tag_pk = 2, tag_name = ''Lunch'', tag_slug = ''lunch''\<rparr>],
          Ingredient_objects = [milk, milkshake, almilk],
          RecipeTags_objects = [\<lparr>rt_pk = 1, rt_recipe = 1, rt_tag = 1\<rparr>,
                                \<lparr>rt_pk = 2, rt_recipe = 2, rt_tag = 2\<rparr>],
          FavoriteRecipe_objects = [\<lparr>fav_pk = 1, fav_user = 1, fav_recipe = 1\<rparr>],
          ShoppingCart_objects = [\<lparr>cart_pk = 1, cart_user = 1, cart_recipe = 2\<rparr>],
          Subscribe_objects = [\<lparr>sub_pk = 1, sub_user = 1, sub_subscribing = 2\<rparr>]\<rparr>"

text \<open>A validated payload that names another author than the caller.\<close>

definition tea_payload :: "string \<rightharpoonup> val" where
  "tea_payload = [''author'' \<mapsto> VUser (User bob), ''name'' \<mapsto> VStr ''Tea'']"

section \<open>Row lookup: basic facts\<close>

lemma get_object_or_404_absent:
  "\<forall>x\<in>set objects. \<not> p x \<Longrightarrow> get_object_or_404 p objects = Inl Http404"
  by (simp add: get_object_or_404_def objects_get_def filter_False)

lemma filter_single:
  assumes "distinct xs" and "x \<in> set xs" and "p x" and "\<forall>y\<in>set xs. p y \<longrightarrow> y = x"
  shows "filter p xs = [x]"
proof -
  from assms(2) obtain ys zs where xs: "xs = ys @ x # zs"
    by (auto simp: in_set_conv_decomp)
  with assms(1) have nx: "x \<notin> set ys" "x \<notin> set zs" by auto
  from assms(4) xs nx have "\<forall>y\<in>set ys. \<not> p y" "\<forall>y\<in>set zs. \<not> p y" by auto
  then have "filter p ys = []" "filter p zs = []" by (simp_all add: filter_empty_conv)
  with xs assms(3) show ?thesis by simp
qed

lemma get_object_or_404_single:
  assumes "distinct xs" and "x \<in> set xs" and "p x" and "\<forall>y\<in>set xs. p y \<longrightarrow> y = x"
  shows "get_object_or_404 p xs = Inr x"
proof -
  from assms have "filter p xs = [x]" by (rule filter_single)
  then show ?thesis by (simp add: get_object_or_404_def objects_get_def)
qed

lemma get_object_or_404_by_key:
  assumes "distinct (map key xs)" and "x \<in> set xs"
  shows "get_object_or_404 (\<lambda>y. key y = key x) xs = Inr x"
proof -
  from assms(1) have d: "distinct xs" and i: "inj_on key (set xs)"
    by (simp_all add: distinct_map)
  from i assms(2) have "\<forall>y\<in>set xs. key y = key x \<longrightarrow> y = x"
    by (auto dest: inj_onD)
  with d assms(2) show ?thesis
    by (intro get_object_or_404_single) simp_all
qed

lemma filter_by_key:
  assumes "distinct (map key xs)" and "distinct (map k2 xs)" and "x \<in> set xs"
  shows "filter (\<lambda>y. key y \<noteq> key x) xs = filter (\<lambda>y. k2 y \<noteq> k2 x) xs"
proof (rule filter_cong[OF refl])
  fix y assume y: "y \<in> set xs"
  from assms(1) have i1: "inj_on key (set xs)" by (simp add: distinct_map)
  from assms(2) have i2: "inj_on k2 (set xs)" by (simp add: distinct_map)
  from i1 i2 y assms(3) show "(key y \<noteq> key x) = (k2 y \<noteq> k2 x)"
    by (auto dest: inj_onD)
qed

section \<open>Membership toggles: the delete contract\<close>

lemma cart_delete_404:
  assumes "\<forall>r\<in>set (Recipe_objects d). recipe_pk r \<noteq> tid"
  shows "ShoppingCartViewSet_delete ru tid d = (Inl Http404, d)"
proof -
  from assms have "get_object_or_404 (\<lambda>r. recipe_pk r = tid) (Recipe_objects d) = Inl Http404"
    by (intro get_object_or_404_absent) simp
  then show ?thesis by (simp add: ShoppingCartViewSet_delete_def)
qed

lemma cart_delete_400:
  assumes wf: "wf_db d" and r: "r \<in> set (Recipe_objects d)"
    and no: "\<not> in_shopping_cart d u r"
  shows "ShoppingCartViewSet_delete (User u) (recipe_pk r) d =
           (Inr \<lparr>status = 400,
                  data = Some [(''errors'', msg_recipe @ recipe_name r @ msg_absent_cart)]\<rparr>, d)"
proof -
  from wf have "distinct (map recipe_pk (Recipe_objects d))" by (simp add: wf_db_def)
  with r have g: "get_object_or_404 (\<lambda>y. recipe_pk y = recipe_pk r) (Recipe_objects d) = Inr r"
    by (intro get_object_or_404_by_key)
  from no have "\<forall>c\<in>set (ShoppingCart_objects d).
      \<not> (cart_user c = user_pk u \<and> cart_recipe c = recipe_pk r)"
    by (simp add: in_shopping_cart_def)
  then have "get_object_or_404 (\<lambda>c. cart_user c = user_pk u \<and> cart_recipe c = recipe_pk r)
      (ShoppingCart_objects d) = Inl Http404"
    by (rule get_object_or_404_absent)
  with g show ?thesis by (simp add: ShoppingCartViewSet_delete_def)
qed

lemma cart_delete_204:
  assumes wf: "wf_db d" and r: "r \<in> set (Recipe_objects d)"
    and yes: "in_shopping_cart d u r"
  shows "ShoppingCartViewSet_delete (User u) (recipe_pk r) d =
           (Inr \<lparr>status = 204, data = None\<rparr>,
            d\<lparr>ShoppingCart_objects :=
                filter (\<lambda>c. \<not> (cart_user c = user_pk u \<and> cart_recipe c = recipe_pk r))
                  (ShoppingCart_objects d)\<rparr>)"
proof -
  from wf have dr: "distinct (map recipe_pk (Recipe_objects d))"
    and dk: "distinct (map cart_pk (ShoppingCart_objects d))"
    and dp: "distinct (map (\<lambda>c. (cart_user c, cart_recipe c)) (ShoppingCart_objects d))"
    by (simp_all add: wf_db_def)
  from dr r have g: "get_object_or_404 (\<lambda>y. recipe_pk y = recipe_pk r) (Recipe_objects d) = Inr r"
    by (intro get_object_or_404_by_key)
  from yes obtain c where c: "c \<in> set (ShoppingCart_objects d)"
    and cu: "cart_user c = user_pk u" and cr: "cart_recipe c = recipe_pk r"
    by (auto simp: in_shopping_cart_def)
  from dp c have "get_object_or_404
      (\<lambda>y. (cart_user y, cart_recipe y) = (cart_user c, cart_recipe c))
      (ShoppingCart_objects d) = Inr c"
    by (rule get_object_or_404_by_key)
  with cu cr have m: "get_object_or_404
      (\<lambda>y. cart_user y = user_pk u \<and> cart_recipe y = recipe_pk r)
      (ShoppingCart_objects d) = Inr c"
    by simp
  from dk dp c have "filter (\<lambda>y. cart_pk y \<noteq> cart_pk c) (ShoppingCart_objects d) =
      filter (\<lambda>y. (cart_user y, cart_recipe y) \<noteq> (cart_user c, cart_recipe c))
        (ShoppingCart_objects d)"
    by (rule filter_by_key)
  with cu cr have f: "filter (\<lambda>y. cart_pk y \<noteq> cart_pk c) (ShoppingCart_objects d) =
      filter (\<lambda>y. \<not> (cart_user y = user_pk u \<and> cart_recipe y = recipe_pk r))
        (ShoppingCart_objects d)"
    by simp
  from g m f show ?thesis by (simp add: ShoppingCartViewSet_delete_def)
qed

lemma favorite_delete_404:
  assumes "\<forall>r\<in>set (Recipe_objects d). recipe_pk r \<noteq> tid"
  shows "FavoriteRecipeViewSet_delete ru tid d = (Inl Http404, d)"
proof -
  from assms have "get_object_or_404 (\<lambda>r. recipe_pk r = tid) (Recipe_objects d) = Inl Http404"
    by (intro get_object_or_404_absent) simp
  then show ?thesis by (simp add: FavoriteRecipeViewSet_delete_def)
qed

lemma favorite_delete_400:
  assumes wf: "wf_db d" and r: "r \<in> set (Recipe_objects d)"
    and no: "\<not> in_favorites d u r"
  shows "FavoriteRecipeViewSet_delete (User u) (recipe_pk r) d =
           (Inr \<lparr>status = 400,
                  data = Some [(''errors'', msg_recipe @ recipe_name r @ msg_absent_favorite)]\<rparr>, d)"
proof -
  from wf have "distinct (map recipe_pk (Recipe_objects d))" by (simp add: wf_db_def)
  with r have g: "get_object_or_404 (\<lambda>y. recipe_pk y = recipe_pk r) (Recipe_objects d) = Inr r"
    by (intro get_object_or_404_by_key)
  from no have "\<forall>c\<in>set (FavoriteRecipe_objects d).
      \<not> (fav_user c = user_pk u \<and> fav_recipe c = recipe_pk r)"
    by (simp add: in_favorites_def)
  then have "get_object_or_404 (\<lambda>c. fav_user c = user_pk u \<and> fav_recipe c = recipe_pk r)
      (FavoriteRecipe_objects d) = Inl Http404"
    by (rule get_object_or_404_absent)
  with g show ?thesis by (simp add: FavoriteRecipeViewSet_delete_def)
qed

lemma favorite_delete_204:
  assumes wf: "wf_db d" and r: "r \<in> set (Recipe_objects d)"
    and yes: "in_favorites d u r"
  shows "FavoriteRecipeViewSet_delete (User u) (recipe_pk r) d =
           (Inr \<lparr>status = 204, data = None\<rparr>,
            d\<lparr>FavoriteRecipe_objects :=
                filter (\<lambda>c. \<not> (fav_user c = user_pk u \<and> fav_recipe c = recipe_pk r))
                  (FavoriteRecipe_objects d)\<rparr>)"
proof -
  from wf have dr: "distinct (map recipe_pk (Recipe_objects d))"
    and dk: "distinct (map fav_pk (FavoriteRecipe_objects d))"
    and dp: "distinct (map (\<lambda>c. (fav_user c, fav_recipe c)) (FavoriteRecipe_objects d))"
    by (simp_all add: wf_db_def)
  from dr r have g: "get_object_or_404 (\<lambda>y. recipe_pk y = recipe_pk r) (Recipe_objects d) = Inr r"
    by (intro get_object_or_404_by_key)
  from yes obtain c where c: "c \<in> set (FavoriteRecipe_objects d)"
    and cu: "fav_user c = user_pk u" and cr: "fav_recipe c = recipe_pk r"
    by (auto simp: in_favorites_def)
  from dp c have "get_object_or_404
      (\<lambda>y. (fav_user y, fav_recipe y) = (fav_user c, fav_recipe c))
      (FavoriteRecipe_objects d) = Inr c"
    by (rule get_object_or_404_by_key)
  with cu cr have m: "get_object_or_404
      (\<lambda>y. fav_user y = user_pk u \<and> fav_recipe y = recipe_pk r)
      (FavoriteRecipe_objects d) = Inr c"
    by simp
  from dk dp c have "filter (\<lambda>y. fav_pk y \<noteq> fav_pk c) (FavoriteRecipe_objects d) =
      filter (\<lambda>y. (fav_user y, fav_recipe y) \<noteq> (fav_user c, fav_recipe c))
        (FavoriteRecipe_objects d)"
    by (rule filter_by_key)
  with cu cr have f: "filter (\<lambda>y. fav_pk y \<noteq> fav_pk c) (FavoriteRecipe_objects d) =
      filter (\<lambda>y. \<not> (fav_user y = user_pk u \<and> fav_recipe y = recipe_pk r))
        (FavoriteRecipe_objects d)"
    by simp
  from g m f show ?thesis by (simp add: FavoriteRecipeViewSet_delete_def)
qed

lemma subscribe_delete_404:
  assumes "\<forall>r\<in>set (User_objects d). user_pk r \<noteq> tid"
  shows "SubscribeViewSet_delete user_str ru tid d = (Inl Http404, d)"
proof -
  from assms have "get_object_or_404 (\<lambda>r. user_pk r = tid) (User_objects d) = Inl Http404"
    by (intro get_object_or_404_absent) simp
  then show ?thesis by (simp add: SubscribeViewSet_delete_def)
qed

lemma subscribe_delete_400:
  assumes wf: "wf_db d" and r: "r \<in> set (User_objects d)"
    and no: "\<not> subscribed_to d u r"
  shows "SubscribeViewSet_delete user_str (User u) (user_pk r) d =
           (Inr \<lparr>status = 400,
                  data = Some [(''errors'', msg_author @ user_str r @ msg_absent_subscribe)]\<rparr>, d)"
proof -
  from wf have "distinct (map user_pk (User_objects d))" by (simp add: wf_db_def)
  with r have g: "get_object_or_404 (\<lambda>y. user_pk y = user_pk r) (User_objects d) = Inr r"
    by (intro get_object_or_404_by_key)
  from no have "\<forall>c\<in>set (Subscribe_objects d).
      \<not> (sub_user c = user_pk u \<and> sub_subscribing c = user_pk r)"
    by (simp add: subscribed_to_def)
  then have "get_object_or_404 (\<lambda>c. sub_user c = user_pk u \<and> sub_subscribing c = user_pk r)
      (Subscribe_objects d) = Inl Http404"
    by (rule get_object_or_404_absent)
  with g show ?thesis by (simp add: SubscribeViewSet_delete_def)
qed

lemma subscribe_delete_204:
  assumes wf: "wf_db d" and r: "r \<in> set (User_objects d)"
    and yes: "subscribed_to d u r"
  shows "SubscribeViewSet_delete user_str (User u) (user_pk r) d =
           (Inr \<lparr>status = 204, data = None\<rparr>,
            d\<lparr>Subscribe_objects :=
                filter (\<lambda>c. \<not> (sub_user c = user_pk u \<and> sub_subscribing c = user_pk r))
                  (Subscribe_objects d)\<rparr>)"
proof -
  from wf have dr: "distinct (map user_pk (User_objects d))"
    and dk: "distinct (map sub_pk (Subscribe_objects d))"
    and dp: "distinct (map (\<lambda>c. (sub_user c, sub_subscribing c)) (Subscribe_objects d))"
    by (simp_all add: wf_db_def)
  from dr r have g: "get_object_or_404 (\<lambda>y. user_pk y = user_pk r) (User_objects d) = Inr r"
    by (intro get_object_or_404_by_key)
  from yes obtain c where c: "c \<in> set (Subscribe_objects d)"
    and cu: "sub_user c = user_pk u" and cr: "sub_subscribing c = user_pk r"
    by (auto simp: subscribed_to_def)
  from dp c have "get_object_or_404
      (\<lambda>y. (sub_user y, sub_subscribing y) = (sub_user c, sub_subscribing c))
      (Subscribe_objects d) = Inr c"
    by (rule get_object_or_404_by_key)
  with cu cr have m: "get_object_or_404
      (\<lambda>y. sub_user y = user_pk u \<and> sub_subscribing y = user_pk r)
      (Subscribe_objects d) = Inr c"
    by simp
  from dk dp c have "filter (\<lambda>y. sub_pk y \<noteq> sub_pk c) (Subscribe_objects d) =
      filter (\<lambda>y. (sub_user y, sub_subscribing y) \<noteq> (sub_user c, sub_subscribing c))
        (Subscribe_objects d)"
    by (rule filter_by_key)
  with cu cr have f: "filter (\<lambda>y. sub_pk y \<noteq> sub_pk c) (Subscribe_objects d) =
      filter (\<lambda>y. \<not> (sub_user y = user_pk u \<and> sub_subscribing y = user_pk r))
        (Subscribe_objects d)"
    by simp
  from g m f show ?thesis by (simp add: SubscribeViewSet_delete_def)
qed

lemmas example_defs = db0_def alice_def bob_def pancakes_def soup_def milk_def milkshake_def
  almilk_def

lemma wf_db0: "wf_db db0"
  by (simp add: wf_db_def example_defs)

text \<open>Claim C3. A membership delete (favorite, shopping cart, subscribe) answers 404 when
  the target of the path (recipe or user) does not exist; when it exists and the caller has
  no membership row for it, the answer is a 400 whose body holds a message naming the
  target; when the row exists, it is deleted and the answer is 204 without content. The
  database is well formed: primary keys are unique and a membership pair occurs once.\<close>

theorem membership_delete_contract:
  assumes "wf_db d"
  shows
    "((\<forall>r\<in>set (Recipe_objects d). recipe_pk r \<noteq> rid) \<longrightarrow>
        http_status (fst (FavoriteRecipeViewSet_delete (User u) rid d)) = 404 \<and>
        http_status (fst (ShoppingCartViewSet_delete (User u) rid d)) = 404) \<and>
     ((\<forall>x\<in>set (User_objects d). user_pk x \<noteq> uid) \<longrightarrow>
        http_status (fst (SubscribeViewSet_delete user_str (User u) uid d)) = 404) \<and>
     (r \<in> set (Recipe_objects d) \<longrightarrow>
        FavoriteRecipeViewSet_delete (User u) (recipe_pk r) d =
          (if in_favorites d u r
           then (Inr \<lparr>status = 204, data = None\<rparr>,
                 d\<lparr>FavoriteRecipe_objects :=
                     filter (\<lambda>f. \<not> (fav_user f = user_pk u \<and> fav_recipe f = recipe_pk r))
                       (FavoriteRecipe_objects d)\<rparr>)
           else (Inr \<lparr>status = 400,
                       data = Some [(''errors'',
                         msg_recipe @ recipe_name r @ msg_absent_favorite)]\<rparr>, d)) \<and>
        ShoppingCartViewSet_delete (User u) (recipe_pk r) d =
          (if in_shopping_cart d u r
           then (Inr \<lparr>status = 204, data = None\<rparr>,
                 d\<lparr>ShoppingCart_objects :=
                     filter (\<lambda>c. \<not> (cart_user c = user_pk u \<and> cart_recipe c = recipe_pk r))
                       (ShoppingCart_objects d)\<rparr>)
           else (Inr \<lparr>status = 400,
                       data = Some [(''errors'',
                         msg_recipe @ recipe_name r @ msg_absent_cart)]\<rparr>, d))) \<and>
     (x \<in> set (User_objects d) \<longrightarrow>
        SubscribeViewSet_delete user_str (User u) (user_pk x) d =
          (if subscribed_to d u x
           then (Inr \<lparr>status = 204, data = None\<rparr>,
                 d\<lparr>Subscribe_objects :=
                     filter (\<lambda>s. \<not> (sub_user s = user_pk u \<and> sub_subscribing s = user_pk x))
                       (Subscribe_objects d)\<rparr>)
           else (Inr \<lparr>status = 400,
                       data = Some [(''errors'',
                         msg_author @ user_str x @ msg_absent_subscribe)]\<rparr>, d)))"
  using assms
  by (simp add: favorite_delete_404 cart_delete_404 subscribe_delete_404
      favorite_delete_400 cart_delete_400 subscribe_delete_400
      favorite_delete_204 cart_delete_204 subscribe_delete_204)

theorem membership_delete_contract_witness:
  "wf_db db0 \<and>
   http_status (fst (FavoriteRecipeViewSet_delete (User alice) 7 db0)) = 404 \<and>
   http_status (fst (ShoppingCartViewSet_delete (User alice) 7 db0)) = 404 \<and>
   http_status (fst (SubscribeViewSet_delete username (User alice) 7 db0)) = 404 \<and>
   FavoriteRecipeViewSet_delete (User alice) 1 db0 =
     (Inr \<lparr>status = 204, data = None\<rparr>, db0\<lparr>FavoriteRecipe_objects := []\<rparr>) \<and>
   ShoppingCartViewSet_delete (User alice) 1 db0 =
     (Inr \<lparr>status = 400,
            data = Some [(''errors'', msg_recipe @ ''Pancakes'' @ msg_absent_cart)]\<rparr>, db0) \<and>
   SubscribeViewSet_delete username (User alice) 2 db0 =
     (Inr \<lparr>status = 204, data = None\<rparr>, db0\<lparr>Subscribe_objects := []\<rparr>)"
proof -
  have c: "7 \<notin> recipe_pk ` set (Recipe_objects db0)" "7 \<notin> user_pk ` set (User_objects db0)"
    by (simp_all add: example_defs)
  have m: "pancakes \<in> set (Recipe_objects db0)" "bob \<in> set (User_objects db0)"
    by (simp_all add: example_defs)
  show ?thesis
    using membership_delete_contract [OF wf_db0, of 7 alice 7 username pancakes bob] c m wf_db0
    by (simp add: in_favorites_def in_shopping_cart_def subscribed_to_def example_defs)
qed

text \<open>Claim C10. A membership delete that answers 400 leaves the whole database as it
  was: no row of any table is created, deleted or changed.\<close>

theorem membership_delete_conflict_keeps_state:
  "(http_status (fst (FavoriteRecipeViewSet_delete ru tid d)) = 400 \<longrightarrow>
      snd (FavoriteRecipeViewSet_delete ru tid d) = d) \<and>
   (http_status (fst (ShoppingCartViewSet_delete ru tid d)) = 400 \<longrightarrow>
      snd (ShoppingCartViewSet_delete ru tid d) = d) \<and>
   (http_status (fst (SubscribeViewSet_delete user_str ru tid d)) = 400 \<longrightarrow>
      snd (SubscribeViewSet_delete user_str ru tid d) = d)"
  by (simp add: FavoriteRecipeViewSet_delete_def ShoppingCartViewSet_delete_def
      SubscribeViewSet_delete_def split: sum.split request_user.split)

theorem membership_delete_conflict_keeps_state_witness:
  "http_status (fst (FavoriteRecipeViewSet_delete (User alice) 2 db0)) = 400 \<and>
   snd (FavoriteRecipeViewSet_delete (User alice) 2 db0) = db0 \<and>
   http_status (fst (ShoppingCartViewSet_delete (User alice) 1 db0)) = 400 \<and>
   snd (ShoppingCartViewSet_delete (User alice) 1 db0) = db0 \<and>
   http_status (fst (SubscribeViewSet_delete username (User bob) 1 db0)) = 400 \<and>
   snd (SubscribeViewSet_delete username (User bob) 1 db0) = db0"
proof -
  have h: "http_status (fst (FavoriteRecipeViewSet_delete (User alice) 2 db0)) = 400"
    "http_status (fst (ShoppingCartViewSet_delete (User alice) 1 db0)) = 400"
    "http_status (fst (SubscribeViewSet_delete username (User bob) 1 db0)) = 400"
    by (simp_all add: FavoriteRecipeViewSet_delete_def ShoppingCartViewSet_delete_def
        SubscribeViewSet_delete_def get_object_or_404_def objects_get_def example_defs)
  show ?thesis
    using h membership_delete_conflict_keeps_state [of "User alice" 2 db0]
      membership_delete_conflict_keeps_state [of "User alice" 1 db0]
      membership_delete_conflict_keeps_state [of "User bob" 1 db0 username]
    by simp
qed

section \<open>Recipe view set: annotations and the returned queryset\<close>

lemma filter_nonempty_iff: "filter p xs \<noteq> [] \<longleftrightarrow> (\<exists>x\<in>set xs. p x)"
  by (simp add: filter_empty_conv)

lemma annotated_queryset_authenticated:
  "annotated_queryset (User u) d =
     map (\<lambda>r. \<lparr>the_recipe = r, is_favorited = in_favorites d u r,
                is_in_shopping_cart = in_shopping_cart d u r\<rparr>) (Recipe_objects d)"
  by (simp add: annotated_queryset_def filter_nonempty_iff in_favorites_def
      in_shopping_cart_def)

lemma annotated_queryset_anonymous:
  "annotated_queryset AnonymousUser d =
     map (\<lambda>r. \<lparr>the_recipe = r, is_favorited = False, is_in_shopping_cart = False\<rparr>)
       (Recipe_objects d)"
  by (simp add: annotated_queryset_def)

text \<open>Claim C1. The claim wants \<^verbatim>\<open>RecipeViewSet.get_queryset\<close> to return all recipes with
  the flags \<open>is_favorited\<close> and \<open>is_in_shopping_cart\<close>. The method computes that queryset
  (the two lemmas above) and then returns nothing: for every requesting user and every
  database its value is \<^verbatim>\<open>None\<close>.\<close>

theorem get_queryset_returns_nothing:
  "RecipeViewSet_get_queryset request_user d = None \<and>
   RecipeViewSet_get_queryset (User alice) db0 \<noteq> Some (annotated_queryset (User alice) db0)"
  by (simp add: RecipeViewSet_get_queryset_def)

section \<open>Recipe filter set: favorites and shopping cart\<close>

lemma join_single:
  "concat (map (\<lambda>f. if p f then [r] else []) fs) = map (\<lambda>_. r) (filter p fs)"
  by (induction fs) simp_all

lemma concat_if_filter:
  "concat (map (\<lambda>r. if q r then [r] else []) rs) = filter q rs"
  by (induction rs) simp_all

lemma filter_at_most_one:
  assumes "distinct (map key fs)" and "\<And>f. p f \<longleftrightarrow> key f = k"
  shows "map (\<lambda>_. r) (filter p fs) = (if \<exists>f\<in>set fs. p f then [r] else [])"
proof (cases "\<exists>f\<in>set fs. p f")
  case True
  then obtain f where f: "f \<in> set fs" "p f" by blast
  from assms(1) have d: "distinct fs" and i: "inj_on key (set fs)"
    by (simp_all add: distinct_map)
  from i f assms(2) have "\<forall>y\<in>set fs. p y \<longrightarrow> y = f"
    by (auto dest: inj_onD)
  with d f have "filter p fs = [f]" by (intro filter_single)
  with True show ?thesis by simp
next
  case False
  then have "filter p fs = []" by (simp add: filter_empty_conv)
  with False show ?thesis by simp
qed

lemma favorites_join_list:
  assumes "wf_db d"
  shows "concat (map (\<lambda>r. concat (map (\<lambda>f. if fav_recipe f = recipe_pk r
                                                 \<and> fav_user f = user_pk u
                                              then [r] else [])
                                  (FavoriteRecipe_objects d))) q) =
         filter (in_favorites d u) q"
proof -
  from assms have dp:
    "distinct (map (\<lambda>f. (fav_user f, fav_recipe f)) (FavoriteRecipe_objects d))"
    by (simp add: wf_db_def)
  have one: "concat (map (\<lambda>f. if fav_recipe f = recipe_pk r \<and> fav_user f = user_pk u
                               then [r] else []) (FavoriteRecipe_objects d)) =
             (if in_favorites d u r then [r] else [])" for r :: recipe
  proof -
    have "map (\<lambda>_. r) (filter (\<lambda>f. fav_recipe f = recipe_pk r \<and> fav_user f = user_pk u)
            (FavoriteRecipe_objects d)) =
          (if \<exists>f\<in>set (FavoriteRecipe_objects d).
                fav_recipe f = recipe_pk r \<and> fav_user f = user_pk u then [r] else [])"
      by (rule filter_at_most_one [OF dp, where k = "(user_pk u, recipe_pk r)"]) auto
    moreover have "(\<exists>f\<in>set (FavoriteRecipe_objects d).
                fav_recipe f = recipe_pk r \<and> fav_user f = user_pk u) = in_favorites d u r"
      by (auto simp: in_favorites_def)
    ultimately show ?thesis
      by (simp only: join_single)
  qed
  show ?thesis by (simp only: one concat_if_filter)
qed

lemma filter_is_favorited_set:
  "v \<noteq> 0 \<Longrightarrow> set (RecipeFilterSet_filter_is_favorited (User u) d q v) =
     {r \<in> set q. in_favorites d u r}"
  by (auto simp: RecipeFilterSet_filter_is_favorited_def in_favorites_def split: if_splits)

lemma filter_is_favorited_list:
  "v \<noteq> 0 \<Longrightarrow> wf_db d \<Longrightarrow>
     RecipeFilterSet_filter_is_favorited (User u) d q v = filter (in_favorites d u) q"
  by (simp add: RecipeFilterSet_filter_is_favorited_def favorites_join_list)

lemma filter_is_favorited_noop:
  "RecipeFilterSet_filter_is_favorited AnonymousUser d q v = q"
  "RecipeFilterSet_filter_is_favorited ru d q 0 = q"
  by (simp_all add: RecipeFilterSet_filter_is_favorited_def)

text \<open>Claim C5. With a value that is true and an authenticated caller, the
  \<open>is_favorited\<close> filter returns exactly the recipes of the queryset that are in the
  caller's favorites (as a list, the queryset filtered by that membership when the database
  is well formed); with the value zero or an anonymous caller it returns the queryset
  unchanged.\<close>

theorem filter_is_favorited_correct:
  "RecipeFilterSet_filter_is_favorited AnonymousUser d q v = q \<and>
   RecipeFilterSet_filter_is_favorited ru d q 0 = q \<and>
   (v \<noteq> 0 \<longrightarrow>
      set (RecipeFilterSet_filter_is_favorited (User u) d q v) =
        {r \<in> set q. in_favorites d u r}) \<and>
   (v \<noteq> 0 \<and> wf_db d \<longrightarrow>
      RecipeFilterSet_filter_is_favorited (User u) d q v = filter (in_favorites d u) q)"
  by (simp add: filter_is_favorited_noop filter_is_favorited_set filter_is_favorited_list)

theorem filter_is_favorited_correct_witness:
  "(1::rat) \<noteq> 0 \<and> wf_db db0 \<and>
   RecipeFilterSet_filter_is_favorited AnonymousUser db0 [pancakes, soup] 1 = [pancakes, soup] \<and>
   RecipeFilterSet_filter_is_favorited (User alice) db0 [pancakes, soup] 0 = [pancakes, soup] \<and>
   RecipeFilterSet_filter_is_favorited (User alice) db0 [pancakes, soup] 1 = [pancakes]"
  using filter_is_favorited_correct [of db0 "[pancakes, soup]" 1 "User alice" alice] wf_db0
  by (simp add: in_favorites_def example_defs)

lemma filter_is_in_shopping_cart_authenticated:
  "v \<noteq> 0 \<Longrightarrow> \<exists>res. RecipeFilterSet_filter_is_in_shopping_cart (User u) d q v = Some res
     \<and> set res = {r \<in> set q. in_shopping_cart d u r}"
  by (auto simp: RecipeFilterSet_filter_is_in_shopping_cart_def in_shopping_cart_def
      split: if_splits)

text \<open>Claim C2. The claim wants the \<open>is_in_shopping_cart\<close> filter to return the queryset
  unchanged for an anonymous caller or a false value, as the favorites filter does. The
  method returns \<^verbatim>\<open>None\<close> there instead of the queryset.\<close>

theorem filter_is_in_shopping_cart_returns_nothing:
  "RecipeFilterSet_filter_is_in_shopping_cart AnonymousUser d q v = None \<and>
   RecipeFilterSet_filter_is_in_shopping_cart ru d q 0 = None \<and>
   RecipeFilterSet_filter_is_in_shopping_cart AnonymousUser db0 [pancakes, soup] 1
     \<noteq> Some [pancakes, soup]"
  by (simp add: RecipeFilterSet_filter_is_in_shopping_cart_def)

section \<open>Subscriptions list\<close>

text \<open>Claim C8. For an authenticated user the subscriptions list is exactly the user rows
  the caller has subscribed to: the rows of the user table whose primary key is the
  \<open>subscribing\<close> field of one of the caller's subscription rows, each once.\<close>

theorem subscriptions_exact:
  "SubscriptionsViewSet_get_queryset (User a) d =
     Inr (filter (subscribed_to d a) (User_objects d))"
proof -
  have "(user_pk x \<in> set (map sub_subscribing
            (filter (\<lambda>s. sub_user s = user_pk a) (Subscribe_objects d)))) =
        subscribed_to d a x" for x
    unfolding subscribed_to_def by force
  then show ?thesis
    by (simp only: SubscriptionsViewSet_get_queryset_def Let_def request_user.case)
qed

theorem subscriptions_exact_witness:
  "SubscriptionsViewSet_get_queryset (User alice) db0 = Inr [bob] \<and>
   SubscriptionsViewSet_get_queryset (User bob) db0 = Inr []"
  using subscriptions_exact [of alice db0] subscriptions_exact [of bob db0]
  by (simp add: subscribed_to_def example_defs)

section \<open>Saving a recipe: the author\<close>

lemma perform_create_author:
  assumes "ser_instance s = None"
  shows "\<exists>r d'. RecipeViewSet_perform_create (User a) s d = Inr (r, d')
           \<and> recipe_author r = user_pk a \<and> r \<in> set (Recipe_objects d')"
  using assms
  by (simp add: RecipeViewSet_perform_create_def serializer_save_def
      RecipePostSerializer_create_def Let_def)

lemma perform_update_author:
  assumes "ser_instance s = Some i" and "i \<in> set (Recipe_objects d)"
  shows "\<exists>r d'. RecipeViewSet_perform_update (User a) s d = Inr (r, d')
           \<and> recipe_pk r = recipe_pk i \<and> recipe_author r = user_pk a
           \<and> r \<in> set (Recipe_objects d')"
proof -
  let ?r = "i\<lparr>recipe_author := user_pk a,
               recipe_name := str_field (validated_data s ++ [''author'' \<mapsto> VUser (User a)])
                                ''name'' (recipe_name i),
               recipe_text := str_field (validated_data s ++ [''author'' \<mapsto> VUser (User a)])
                                ''text'' (recipe_text i)\<rparr>"
  let ?d = "d\<lparr>Recipe_objects :=
               map (\<lambda>x. if recipe_pk x = recipe_pk ?r then ?r else x) (Recipe_objects d)\<rparr>"
  from assms(1) have "RecipeViewSet_perform_update (User a) s d = Inr (?r, ?d)"
    by (simp add: RecipeViewSet_perform_update_def serializer_save_def
        RecipePostSerializer_update_def Let_def)
  moreover from assms(2) have "?r \<in> set (Recipe_objects ?d)"
    by (force simp: image_iff)
  ultimately show ?thesis by simp
qed

text \<open>Claim C4. A recipe created or updated by the authenticated user \<open>a\<close> is stored with
  \<open>a\<close> as its author, whatever author the validated payload of the serializer names:
  \<^verbatim>\<open>perform_create\<close> and \<^verbatim>\<open>perform_update\<close> pass \<^verbatim>\<open>author=request.user\<close> to
  \<^verbatim>\<open>save\<close>, which lets it override the payload.\<close>

theorem saved_recipe_author_is_caller:
  "(ser_instance s = None \<longrightarrow>
      (\<exists>r d'. RecipeViewSet_perform_create (User a) s d = Inr (r, d')
         \<and> recipe_author r = user_pk a \<and> r \<in> set (Recipe_objects d'))) \<and>
   (ser_instance s = Some i \<and> i \<in> set (Recipe_objects d) \<longrightarrow>
      (\<exists>r d'. RecipeViewSet_perform_update (User a) s d = Inr (r, d')
         \<and> recipe_pk r = recipe_pk i \<and> recipe_author r = user_pk a
         \<and> r \<in> set (Recipe_objects d')))"
  using perform_create_author [of s a d] perform_update_author [of s i d a]
  by blast

theorem saved_recipe_author_is_caller_witness:
  "(\<exists>r d'. RecipeViewSet_perform_create (User alice)
              \<lparr>validated_data = tea_payload, ser_instance = None\<rparr> db0 = Inr (r, d')
      \<and> recipe_author r = user_pk alice \<and> r \<in> set (Recipe_objects d')) \<and>
   (\<exists>r d'. RecipeViewSet_perform_update (User alice)
              \<lparr>validated_data = tea_payload, ser_instance = Some soup\<rparr> db0 = Inr (r, d')
      \<and> recipe_pk r = recipe_pk soup \<and> recipe_author r = user_pk alice
      \<and> r \<in> set (Recipe_objects d'))"
proof -
  have m: "soup \<in> set (Recipe_objects db0)" by (simp add: db0_def)
  show ?thesis
    using m
      saved_recipe_author_is_caller
        [of "\<lparr>validated_data = tea_payload, ser_instance = None\<rparr>" alice db0 soup]
      saved_recipe_author_is_caller
        [of "\<lparr>validated_data = tea_payload, ser_instance = Some soup\<rparr>" alice db0 soup]
    by simp
qed

lemma perform_create_example:
  "RecipeViewSet_perform_create (User alice)
     \<lparr>validated_data = tea_payload, ser_instance = None\<rparr> db0 =
   Inr (\<lparr>recipe_pk = 3, recipe_author = 1, recipe_name = ''Tea'', recipe_text = []\<rparr>,
        db0\<lparr>Recipe_objects := [pancakes, soup,
          \<lparr>recipe_pk = 3, recipe_author = 1, recipe_name = ''Tea'', recipe_text = []\<rparr>]\<rparr>)"
  by (simp add: RecipeViewSet_perform_create_def serializer_save_def
      RecipePostSerializer_create_def Let_def tea_payload_def str_field_def next_pk_def
      example_defs)

section \<open>Ingredient search\<close>

lemma startswith_take:
  "startswith s p \<longleftrightarrow> length p \<le> length s \<and> take (length p) s = p"
  by (induction s p rule: startswith.induct) auto

lemma istartswith_spec:
  "istartswith upper name v = starts_with_ignoring_case upper v name"
  by (auto simp: istartswith_def starts_with_ignoring_case_def startswith_take take_map)

lemma set_dropWhile_keep: "x \<in> set xs \<Longrightarrow> \<not> P x \<Longrightarrow> x \<in> set (dropWhile P xs)"
  by (induction xs) auto

lemma nul_in_strip: "0 \<in> set (strip s) \<longleftrightarrow> 0 \<in> set s"
proof
  assume "0 \<in> set (strip s)"
  then have "0 \<in> set (dropWhile isspace (rev (dropWhile isspace s)))"
    by (simp add: strip_def)
  then have "0 \<in> set (rev (dropWhile isspace s))" by (auto dest: set_dropWhileD)
  then show "0 \<in> set s" by (auto dest: set_dropWhileD)
next
  assume a: "0 \<in> set s"
  have n: "\<not> isspace 0" by (simp add: isspace_def)
  from a n have "0 \<in> set (dropWhile isspace s)" by (rule set_dropWhile_keep)
  then have "0 \<in> set (rev (dropWhile isspace s))" by simp
  from this n have "0 \<in> set (dropWhile isspace (rev (dropWhile isspace s)))"
    by (rule set_dropWhile_keep)
  then show "0 \<in> set (strip s)" by (simp add: strip_def)
qed

lemma ingredient_search_general:
  "IngredientSearchFilter_name upper q s =
     (if 0 \<in> set s then Inl ValidationError
      else Inr (filter (\<lambda>i. starts_with_ignoring_case upper (strip s) (ingredient_name i)) q))"
proof (cases "strip s = []")
  case True
  then have "0 \<notin> set (strip s)" by simp
  then have "0 \<notin> set s" by (simp add: nul_in_strip)
  with True show ?thesis
    by (simp add: IngredientSearchFilter_name_def starts_with_ignoring_case_def)
next
  case False
  then show ?thesis
    by (simp add: IngredientSearchFilter_name_def Let_def istartswith_spec nul_in_strip)
qed

text \<open>Claim C6, as amended. For every submitted value \<open>s\<close> without a NUL character the
  ingredient name filter returns exactly the ingredients whose name starts, ignoring case,
  with \<open>s\<close> stripped of its leading and trailing whitespace; for \<open>mil\<close> these are "Milk" and
  "MILKSHAKE" and not "Almilk". A value with a NUL character is refused with a validation
  error.\<close>

theorem ingredient_search_stripped_prefix:
  "IngredientSearchFilter_name upper q s =
     (if 0 \<in> set s then Inl ValidationError
      else Inr (filter (\<lambda>i. starts_with_ignoring_case upper (strip s) (ingredient_name i)) q)) \<and>
   IngredientSearchFilter_name ascii_upper [milk, milkshake, almilk] (codepoints ''mil'') =
     Inr [milk, milkshake]"
proof -
  have "IngredientSearchFilter_name ascii_upper [milk, milkshake, almilk] (codepoints ''mil'') =
     Inr [milk, milkshake]"
    by (simp add: IngredientSearchFilter_name_def Let_def strip_def isspace_def
        istartswith_def ascii_upper_def codepoints_def example_defs)
  with ingredient_search_general [of upper q s] show ?thesis by simp
qed

theorem ingredient_search_stripped_prefix_witness:
  "IngredientSearchFilter_name ascii_upper [milk, milkshake, almilk]
     (codepoints '' MIL'' @ [0xA0]) = Inr [milk, milkshake] \<and>
   IngredientSearchFilter_name ascii_upper [milk, milkshake, almilk]
     (codepoints ''mil'' @ [0]) = Inl ValidationError"
  using
    ingredient_search_stripped_prefix
      [of ascii_upper "[milk, milkshake, almilk]" "codepoints '' MIL'' @ [0xA0]"]
    ingredient_search_stripped_prefix
      [of ascii_upper "[milk, milkshake, almilk]" "codepoints ''mil'' @ [0]"]
  by (simp add: starts_with_ignoring_case_def strip_def isspace_def ascii_upper_def
      codepoints_def example_defs)

text \<open>The claim as it is written fails for a value with a trailing blank: "Milk" does not
  start with \<open>mil\<close> followed by a blank, and the filter returns it. It fails for a value with
  a NUL character too: the filter returns no ingredients at all, the request is refused.\<close>

theorem ingredient_search_counterexample:
  "IngredientSearchFilter_name ascii_upper [milk] (codepoints ''mil '') = Inr [milk] \<and>
   \<not> starts_with_ignoring_case ascii_upper (codepoints ''mil '') (ingredient_name milk) \<and>
   IngredientSearchFilter_name ascii_upper [milk] (codepoints ''mil'' @ [0]) =
     Inl ValidationError"
  by (simp add: IngredientSearchFilter_name_def Let_def strip_def isspace_def
      istartswith_def ascii_upper_def starts_with_ignoring_case_def codepoints_def
      example_defs)

section \<open>Recipe filter set: tags\<close>

lemma tags_join_set:
  "set [r. r \<leftarrow> q, rt \<leftarrow> RecipeTags_objects d, rt_recipe rt = recipe_pk r,
           t \<leftarrow> Tag_objects d, tag_pk t = rt_tag rt, tag_slug t \<in> set vs] =
     {r \<in> set q. \<exists>s\<in>set vs. tagged_with d r s}"
  by (auto simp: tagged_with_def split: if_splits)

text \<open>Claim C7, as amended. For every non-empty list of slugs that are all slugs of existing
  tags, the \<open>tags\<close> filter returns exactly the recipes of the queryset tagged with at least
  one of them, each once; a list with a slug of no tag is rejected with a validation
  error.\<close>

theorem tags_filter_known_slugs:
  assumes "vs \<noteq> []"
  shows "if set vs \<subseteq> tag_slug ` set (Tag_objects d)
         then \<exists>res. RecipeFilterSet_tags d q vs = Inr res \<and> distinct res
                \<and> set res = {r \<in> set q. \<exists>s\<in>set vs. tagged_with d r s}
         else RecipeFilterSet_tags d q vs = Inl ValidationError"
proof (cases "set vs \<subseteq> tag_slug ` set (Tag_objects d)")
  case True
  then have "\<not> (\<exists>v\<in>set vs. v \<notin> set (map tag_slug (Tag_objects d)))" by auto
  with assms have "RecipeFilterSet_tags d q vs = Inr (remdups
             [r. r \<leftarrow> q, rt \<leftarrow> RecipeTags_objects d, rt_recipe rt = recipe_pk r,
                 t \<leftarrow> Tag_objects d, tag_pk t = rt_tag rt, tag_slug t \<in> set vs])"
    unfolding RecipeFilterSet_tags_def by (simp only: if_False)
  with True show ?thesis
    by (simp only: if_True tags_join_set [symmetric]) simp
next
  case False
  then have "\<exists>v\<in>set vs. v \<notin> set (map tag_slug (Tag_objects d))" by auto
  with assms have "RecipeFilterSet_tags d q vs = Inl ValidationError"
    unfolding RecipeFilterSet_tags_def by (simp only: if_False if_True)
  with False show ?thesis by (simp only: if_False)
qed

theorem tags_filter_known_slugs_witness:
  "[''breakfast'', ''lunch''] \<noteq> ([] :: string list) \<and>
   RecipeFilterSet_tags db0 [pancakes, soup] [''breakfast'', ''lunch''] = Inr [pancakes, soup] \<and>
   RecipeFilterSet_tags db0 [pancakes, soup] [''lunch''] = Inr [soup] \<and>
   RecipeFilterSet_tags db0 [pancakes, soup] [''lunch'', ''dinner''] = Inl ValidationError"
proof -
  have e: "RecipeFilterSet_tags db0 [pancakes, soup] [''breakfast'', ''lunch'']
             = Inr [pancakes, soup]"
    "RecipeFilterSet_tags db0 [pancakes, soup] [''lunch''] = Inr [soup]"
    by (simp_all add: RecipeFilterSet_tags_def example_defs)
  show ?thesis
    using e tags_filter_known_slugs [of "[''lunch'', ''dinner'']" db0 "[pancakes, soup]"]
      tags_filter_known_slugs [of "[''breakfast'', ''lunch'']" db0 "[pancakes, soup]"]
    by (simp add: example_defs)
qed

text \<open>The claim as it is written fails for a slug that no tag has: the filter does not
  return the empty set of recipes tagged with it, the request is refused.\<close>

theorem tags_filter_counterexample:
  "RecipeFilterSet_tags db0 [pancakes, soup] [''dinner''] = Inl ValidationError \<and>
   RecipeFilterSet_tags db0 [pancakes, soup] [''dinner''] \<noteq> Inr []"
  by (simp add: RecipeFilterSet_tags_def example_defs)

end
